theory Spec2Isabelle
  imports Complex_Main "HOL-Library.AList" "HOL-Library.Sublist" "HOL-Library.Multiset"
begin

section \<open>Data model (models.py)\<close>

text \<open>
  Conventions of the embedding.
  \<^item> A Python \<open>float\<close> is a \<open>real\<close>: rounding error, infinities and NaN are outside the model.
  \<^item> A Python \<open>int\<close> is an \<open>int\<close>.
  \<^item> A Python \<open>str\<close> is a \<open>string\<close> whose characters stand for the code points
    \<open>0 .. 255\<close>; on these \<open>lower\<close> and \<open>strip\<close> below agree with \<open>str.lower\<close> and
    \<open>str.strip\<close>.
  \<^item> A Python \<open>dict\<close> is an association list kept in insertion order; \<open>d[k] = v\<close> is
    \<open>AList.update k v d\<close> (replace in place, or append a new key), \<open>d.get(k)\<close> is
    \<open>map_of d k\<close> and \<open>d.values()\<close> is \<open>map snd d\<close>.
  \<^item> An exception is a value of type \<open>error\<close>; an operation that mutates its object
    returns the object after the call, also when it raises.
  \<^item> \<open>datetime.now\<close> is an argument of \<open>evaluate\<close>.
  \<^item> The field \<open>size\<close> of a dataset is \<open>size_samples\<close> (HOL has a constant \<open>size\<close>), and
    the field \<open>dataset_id\<close> of a result is \<open>result_dataset_id\<close> (the dataset record has
    the other).
\<close>

datatype error = DatasetNotFoundError string | ValidationError

record AlignmentDataset =
  dataset_id :: string
  name :: string
  description :: string
  category :: string
  size_samples :: int
  format :: string
  license :: string
  tags :: "string list"
  download_url :: "string option"
  quality_score :: real

record MarketplaceListing =
  dataset :: AlignmentDataset
  downloads :: int
  rating :: real
  reviews :: int

type_synonym timestamp = nat

record EvaluationResult =
  result_dataset_id :: string
  model_name :: string
  score :: real
  metrics :: "(string \<times> real) list"
  evaluated_at :: timestamp

text \<open>
  The constructors of the pydantic models check the field constraints and raise a
  validation error otherwise. A field that is itself a model instance is taken as it is.
\<close>

definition new_MarketplaceListing ::
  "AlignmentDataset \<Rightarrow> int \<Rightarrow> real \<Rightarrow> int \<Rightarrow> error + MarketplaceListing" where
  "new_MarketplaceListing ds dl rt rv =
     (if 0 \<le> dl \<and> 0 \<le> rt \<and> rt \<le> 5 \<and> 0 \<le> rv
      then Inr \<lparr>dataset = ds, downloads = dl, rating = rt, reviews = rv\<rparr>
      else Inl ValidationError)"

definition new_EvaluationResult ::
  "string \<Rightarrow> string \<Rightarrow> real \<Rightarrow> (string \<times> real) list \<Rightarrow> timestamp \<Rightarrow> error + EvaluationResult" where
  "new_EvaluationResult did mname sc ms ts =
     (if 0 \<le> sc \<and> sc \<le> 1
      then Inr \<lparr>result_dataset_id = did, model_name = mname, score = sc,
                metrics = ms, evaluated_at = ts\<rparr>
      else Inl ValidationError)"

section \<open>The default scorer (core.py, \<open>_default_scorer\<close>)\<close>

text \<open>A model output is a dictionary from field names to strings, floats, ints or booleans.\<close>

datatype pyval = PStr string | PFloat real | PInt int | PBool bool

type_synonym model_output = "string \<rightharpoonup> pyval"

text \<open>
  \<open>raw = output.get("score", 0.5)\<close>; a \<open>bool\<close> is an instance of \<open>int\<close>, and
  \<open>float(True) = 1.0\<close>, \<open>float(False) = 0.0\<close>.
\<close>

definition default_scorer :: "model_output \<Rightarrow> real" where
  "default_scorer output =
     (let raw = (case output ''score'' of Some v \<Rightarrow> v | None \<Rightarrow> PFloat (1/2)) in
      case raw of
        PFloat r \<Rightarrow> max 0 (min 1 r)
      | PInt i \<Rightarrow> max 0 (min 1 (of_int i))
      | PBool b \<Rightarrow> max 0 (min 1 (if b then 1 else 0))
      | PStr s \<Rightarrow> 1/2)"

section \<open>Strings and the dictionary of the registry\<close>

text \<open>
  \<open>str.lower\<close> on the code points below 256: the capital letters \<open>A .. Z\<close> and
  \<open>0xC0 .. 0xDE\<close> (without the multiplication sign \<open>0xD7\<close>) move up by 32.
\<close>

definition py_lower_char :: "char \<Rightarrow> char" where
  "py_lower_char c =
     (let n = (of_char c :: nat) in
      if (65 \<le> n \<and> n \<le> 90) \<or> (192 \<le> n \<and> n \<le> 222 \<and> n \<noteq> 215)
      then char_of (n + 32) else c)"

definition py_lower :: "string \<Rightarrow> string" where
  "py_lower s = map py_lower_char s"

text \<open>\<open>str.strip\<close> removes the leading and trailing white space (\<open>str.isspace\<close>).\<close>

definition py_isspace :: "char \<Rightarrow> bool" where
  "py_isspace c =
     (let n = (of_char c :: nat) in
      (9 \<le> n \<and> n \<le> 13) \<or> (28 \<le> n \<and> n \<le> 32) \<or> n = 133 \<or> n = 160)"

definition py_strip :: "string \<Rightarrow> string" where
  "py_strip s = rev (dropWhile py_isspace (rev (dropWhile py_isspace s)))"

text \<open>\<open>sep.join(parts)\<close>.\<close>

fun py_join :: "string \<Rightarrow> string list \<Rightarrow> string" where
  "py_join sep [] = []"
| "py_join sep [p] = p"
| "py_join sep (p # q # ps) = p @ sep @ py_join sep (q # ps)"

text \<open>
  \<open>re.search(re.escape(q), s)\<close> finds a match (is not \<open>None\<close>): the escaped pattern
  matches the text \<open>q\<close> and nothing else, and \<open>re.search\<close> tries every position of
  \<open>s\<close> from left to right.
\<close>

fun re_search_escaped :: "string \<Rightarrow> string \<Rightarrow> bool" where
  "re_search_escaped q [] = (q = [])"
| "re_search_escaped q (c # cs) = (prefix q (c # cs) \<or> re_search_escaped q cs)"

section \<open>The registry (core.py, \<open>DatasetRegistry\<close>)\<close>

record DatasetRegistry =
  datasets :: "(string \<times> AlignmentDataset) list"
  listings :: "(string \<times> MarketplaceListing) list"

definition DatasetRegistry_init :: DatasetRegistry where
  "DatasetRegistry_init = \<lparr>datasets = [], listings = []\<rparr>"

text \<open>
  The statement \<open>self._listings[k] = MarketplaceListing(...)\<close>: the constructor runs
  first, and when it raises the dictionary is not touched.
\<close>

definition set_listing ::
  "string \<Rightarrow> error + MarketplaceListing \<Rightarrow> DatasetRegistry \<Rightarrow> (error + unit) \<times> DatasetRegistry" where
  "set_listing k made self =
     (case made of
        Inl e \<Rightarrow> (Inl e, self)
      | Inr l \<Rightarrow> (Inr (), self\<lparr>listings := AList.update k l (listings self)\<rparr>))"

definition register :: "AlignmentDataset \<Rightarrow> DatasetRegistry \<Rightarrow> (error + unit) \<times> DatasetRegistry" where
  "register ds self =
     (let self1 = self\<lparr>datasets := AList.update (dataset_id ds) ds (datasets self)\<rparr> in
      case map_of (listings self1) (dataset_id ds) of
        None \<Rightarrow> set_listing (dataset_id ds) (new_MarketplaceListing ds 0 0 0) self1
      | Some existing \<Rightarrow>
          set_listing (dataset_id ds)
            (new_MarketplaceListing ds (downloads existing) (rating existing) (reviews existing))
            self1)"

definition get :: "string \<Rightarrow> DatasetRegistry \<Rightarrow> error + AlignmentDataset" where
  "get did self =
     (case map_of (datasets self) did of
        Some d \<Rightarrow> Inr d
      | None \<Rightarrow> Inl (DatasetNotFoundError did))"

definition increment_downloads :: "string \<Rightarrow> DatasetRegistry \<Rightarrow> (error + unit) \<times> DatasetRegistry" where
  "increment_downloads did self =
     (case map_of (listings self) did of
        None \<Rightarrow> (Inr (), self)
      | Some listing \<Rightarrow>
          set_listing did
            (new_MarketplaceListing (dataset listing) (downloads listing + 1)
               (rating listing) (reviews listing))
            self)"

text \<open>The text a query is matched against: name, description and tags joined by one space.\<close>

definition searchable :: "AlignmentDataset \<Rightarrow> string" where
  "searchable ds = py_lower (py_join '' '' ([name ds, description ds] @ tags ds))"

text \<open>
  One pass of the loop body of \<open>search\<close>: \<open>False\<close> when one of the three \<open>continue\<close>
  statements is reached, \<open>True\<close> when the listing is appended.
\<close>

definition search_keeps :: "string \<Rightarrow> string option \<Rightarrow> real \<Rightarrow> MarketplaceListing \<Rightarrow> bool" where
  "search_keeps query_lower cat min_quality listing =
     (let ds = dataset listing in
      if quality_score ds < min_quality then False
      else if (case cat of None \<Rightarrow> False | Some c \<Rightarrow> py_lower (category ds) \<noteq> py_lower c) then False
      else if query_lower \<noteq> [] then
        (if \<not> re_search_escaped query_lower (searchable ds) then False else True)
      else True)"

fun search_loop ::
  "string \<Rightarrow> string option \<Rightarrow> real \<Rightarrow> MarketplaceListing list \<Rightarrow> MarketplaceListing list
     \<Rightarrow> MarketplaceListing list" where
  "search_loop query_lower cat min_quality [] results = results"
| "search_loop query_lower cat min_quality (listing # rest) results =
     (if search_keeps query_lower cat min_quality listing
      then search_loop query_lower cat min_quality rest (results @ [listing])
      else search_loop query_lower cat min_quality rest results)"

text \<open>
  \<open>results.sort(key=..., reverse=True)\<close> is a stable sort into descending order of the
  key: it is the stable ascending sort by the negated key.
\<close>

definition search :: "string \<Rightarrow> string option \<Rightarrow> real \<Rightarrow> DatasetRegistry \<Rightarrow> MarketplaceListing list" where
  "search query cat min_quality self =
     (let query_lower = py_strip (py_lower query);
          results = search_loop query_lower cat min_quality (map snd (listings self)) []
      in sort_key (\<lambda>listing. - quality_score (dataset listing)) results)"

section \<open>The evaluator (core.py, \<open>EvaluationRunner\<close>)\<close>

record EvaluationRunner =
  registry :: DatasetRegistry
  scoring_fn :: "model_output \<Rightarrow> real"
  results :: "(string \<times> EvaluationResult list) list"

definition EvaluationRunner_init ::
  "DatasetRegistry \<Rightarrow> (model_output \<Rightarrow> real) option \<Rightarrow> EvaluationRunner" where
  "EvaluationRunner_init reg fn =
     \<lparr>registry = reg,
      scoring_fn = (case fn of None \<Rightarrow> default_scorer | Some f \<Rightarrow> f),
      results = []\<rparr>"

text \<open>
  \<open>round(x, ndigits)\<close> on an exact value: the nearest multiple of \<open>10 ^ (- ndigits)\<close>,
  a tie going to the even one.
\<close>

definition round_half_even :: "real \<Rightarrow> int" where
  "round_half_even x =
     (let f = \<lfloor>x\<rfloor>; d = x - of_int f in
      if d < 1/2 then f else if 1/2 < d then f + 1 else if even f then f else f + 1)"

definition py_round :: "real \<Rightarrow> nat \<Rightarrow> real" where
  "py_round x ndigits = of_int (round_half_even (x * 10 ^ ndigits)) / 10 ^ ndigits"

definition aggregate_of :: "real list \<Rightarrow> real" where
  "aggregate_of scores = (if scores \<noteq> [] then sum_list scores / real (length scores) else 0)"

definition min_of :: "real list \<Rightarrow> real" where
  "min_of scores = (case scores of [] \<Rightarrow> 0 | s # ss \<Rightarrow> fold min ss s)"

definition max_of :: "real list \<Rightarrow> real" where
  "max_of scores = (case scores of [] \<Rightarrow> 0 | s # ss \<Rightarrow> fold max ss s)"

definition get_results :: "string \<Rightarrow> EvaluationRunner \<Rightarrow> EvaluationResult list" where
  "get_results did self = (case map_of (results self) did of Some rs \<Rightarrow> rs | None \<Rightarrow> [])"

definition evaluate ::
  "string \<Rightarrow> model_output list \<Rightarrow> string \<Rightarrow> timestamp \<Rightarrow> EvaluationRunner
     \<Rightarrow> (error + EvaluationResult) \<times> EvaluationRunner" where
  "evaluate did model_outputs mname now self =
     (case get did (registry self) of
        Inl e \<Rightarrow> (Inl e, self)
      | Inr ds \<Rightarrow>
          (let scores = (if model_outputs = [] then [] else map (scoring_fn self) model_outputs);
               aggregate_score = aggregate_of scores;
               ms = [(''mean_score'', aggregate_score),
                     (''min_score'', min_of scores),
                     (''max_score'', max_of scores),
                     (''sample_count'', real (length scores))]
           in case new_EvaluationResult did mname (py_round aggregate_score 4) ms now of
                Inl e \<Rightarrow> (Inl e, self)
              | Inr result \<Rightarrow>
                  (Inr result,
                   self\<lparr>results :=
                     AList.update did (get_results did self @ [result]) (results self)\<rparr>)))"

section \<open>Sequences of calls\<close>

text \<open>
  A caller is a list of calls, run from left to right. A call that raises leaves the
  state as the raise left it, and the caller goes on.
\<close>

datatype reg_call =
    Register AlignmentDataset
  | IncrementDownloads string
  | Get string
  | Search string "string option" real

fun reg_step :: "reg_call \<Rightarrow> DatasetRegistry \<Rightarrow> DatasetRegistry" where
  "reg_step (Register ds) s = snd (register ds s)"
| "reg_step (IncrementDownloads did) s = snd (increment_downloads did s)"
| "reg_step (Get did) s = s"
| "reg_step (Search query cat min_quality) s = s"

fun reg_run :: "reg_call list \<Rightarrow> DatasetRegistry \<Rightarrow> DatasetRegistry" where
  "reg_run [] s = s"
| "reg_run (c # cs) s = reg_run cs (reg_step c s)"

datatype call =
    Registry reg_call
  | Evaluate string "model_output list" string timestamp
  | GetResults string

fun step :: "call \<Rightarrow> EvaluationRunner \<Rightarrow> EvaluationRunner" where
  "step (Registry c) s = s\<lparr>registry := reg_step c (registry s)\<rparr>"
| "step (Evaluate did outs mname now) s = snd (evaluate did outs mname now s)"
| "step (GetResults did) s = s"

fun run :: "call list \<Rightarrow> EvaluationRunner \<Rightarrow> EvaluationRunner" where
  "run [] s = s"
| "run (c # cs) s = run cs (step c s)"

text \<open>The results that the successful \<open>evaluate\<close> calls for one dataset id returned, in call order.\<close>

fun returned_by :: "string \<Rightarrow> call \<Rightarrow> EvaluationRunner \<Rightarrow> EvaluationResult list" where
  "returned_by did (Evaluate d outs mname now) s =
     (case fst (evaluate d outs mname now s) of
        Inr r \<Rightarrow> (if d = did then [r] else [])
      | Inl e \<Rightarrow> [])"
| "returned_by did c s = []"

fun returned_in :: "string \<Rightarrow> call list \<Rightarrow> EvaluationRunner \<Rightarrow> EvaluationResult list" where
  "returned_in did [] s = []"
| "returned_in did (c # cs) s = returned_by did c s @ returned_in did cs (step c s)"

text \<open>The payload of the last \<open>register\<close> call for an identifier.\<close>

fun last_registered :: "string \<Rightarrow> reg_call list \<Rightarrow> AlignmentDataset option" where
  "last_registered did [] = None"
| "last_registered did (Register ds # cs) =
     (case last_registered did cs of
        Some d \<Rightarrow> Some d
      | None \<Rightarrow> (if dataset_id ds = did then Some ds else None))"
| "last_registered did (c # cs) = last_registered did cs"

section \<open>Invariants of the registry\<close>

text \<open>A listing that satisfies the field constraints of \<open>MarketplaceListing\<close>.\<close>

definition valid_listing :: "MarketplaceListing \<Rightarrow> bool" where
  "valid_listing l = (0 \<le> downloads l \<and> 0 \<le> rating l \<and> rating l \<le> 5 \<and> 0 \<le> reviews l)"

definition listings_valid :: "DatasetRegistry \<Rightarrow> bool" where
  "listings_valid s = (\<forall>did l. map_of (listings s) did = Some l \<longrightarrow> valid_listing l)"

text \<open>
  Coherence of the two dictionaries: the same identifiers, and each listing wraps the
  dataset record stored under its identifier.
\<close>

definition coherent :: "DatasetRegistry \<Rightarrow> bool" where
  "coherent s =
     (dom (map_of (datasets s)) = dom (map_of (listings s))
      \<and> (\<forall>did l. map_of (listings s) did = Some l \<longrightarrow> map_of (datasets s) did = Some (dataset l)))"

section \<open>Sample data (tests/conftest.py)\<close>

definition sample_dataset :: AlignmentDataset where
  "sample_dataset =
     \<lparr>dataset_id = ''ds-001'', name = ''Safety Prompts v1'',
      description = ''A dataset of safety-related prompts for alignment evaluation.'',
      category = ''safety'', size_samples = 500, format = ''jsonl'', license = ''CC-BY-4.0'',
      tags = [''safety'', ''harmlessness'', ''prompts''], download_url = None,
      quality_score = 0.85\<rparr>"

definition high_quality_dataset :: AlignmentDataset where
  "high_quality_dataset =
     \<lparr>dataset_id = ''ds-002'', name = ''Helpfulness Eval'',
      description = ''Evaluations for helpfulness across diverse tasks.'',
      category = ''helpfulness'', size_samples = 1000, format = ''json'', license = ''MIT'',
      tags = [''helpfulness'', ''eval''], download_url = None, quality_score = 0.95\<rparr>"

definition low_quality_dataset :: AlignmentDataset where
  "low_quality_dataset =
     \<lparr>dataset_id = ''ds-003'', name = ''Rough Drafts'',
      description = ''Unverified community-contributed examples.'',
      category = ''safety'', size_samples = 200, format = ''csv'', license = ''CC0'',
      tags = [''community''], download_url = None, quality_score = 0.30\<rparr>"

text \<open>The fixture \<open>registry\<close>: the first two datasets registered in a fresh registry.\<close>

definition fixture_registry :: DatasetRegistry where
  "fixture_registry =
     reg_run [Register sample_dataset, Register high_quality_dataset] DatasetRegistry_init"

text \<open>The fixture \<open>runner\<close>: an evaluator with the default scorer on the fixture registry.\<close>

definition fixture_runner :: EvaluationRunner where
  "fixture_runner = EvaluationRunner_init fixture_registry None"



section \<open>The text filter as the specification words it\<close>

text \<open>
  The specification's reading of the text filter, for comparison with \<open>search\<close>: the
  query is trimmed and lowercased, and is looked for in the lowercased concatenation of
  the name, the description and all tags.
\<close>

definition spec_text_match :: "string \<Rightarrow> AlignmentDataset \<Rightarrow> bool" where
  "spec_text_match query ds =
     (let q = py_lower (py_strip query) in
      q = [] \<or> sublist q (py_lower (concat (name ds # description ds # tags ds))))"

text \<open>A dataset whose name contains a regular-expression metacharacter.\<close>

definition dotted_dataset :: AlignmentDataset where
  "dotted_dataset =
     \<lparr>dataset_id = ''ds-dot'', name = ''a.b'', description = ''c'', category = ''safety'',
      size_samples = 1, format = ''json'', license = ''MIT'', tags = [''d''],
      download_url = None, quality_score = 0.5\<rparr>"

definition dotted_registry :: DatasetRegistry where
  "dotted_registry = reg_run [Register dotted_dataset] DatasetRegistry_init"

section \<open>Properties of the default scorer\<close>



section \<open>Properties of the registry\<close>

lemma register_on_valid:
  assumes "listings_valid s"
  shows "register ds s =
    (Inr (), s\<lparr>datasets := AList.update (dataset_id ds) ds (datasets s),
               listings := AList.update (dataset_id ds)
                 (case map_of (listings s) (dataset_id ds) of
                    None \<Rightarrow> \<lparr>dataset = ds, downloads = 0, rating = 0, reviews = 0\<rparr>
                  | Some e \<Rightarrow> \<lparr>dataset = ds, downloads = downloads e, rating = rating e,
                              reviews = reviews e\<rparr>) (listings s)\<rparr>)"
proof (cases "map_of (listings s) (dataset_id ds)")
  case None
  then show ?thesis
    by (simp add: register_def set_listing_def new_MarketplaceListing_def)
next
  case (Some e)
  with assms have "valid_listing e" by (auto simp: listings_valid_def)
  with Some show ?thesis
    by (simp add: register_def set_listing_def new_MarketplaceListing_def valid_listing_def)
qed

lemma increment_downloads_on_valid:
  assumes "listings_valid s"
  shows "increment_downloads did s =
    (Inr (), case map_of (listings s) did of
               None \<Rightarrow> s
             | Some l \<Rightarrow> s\<lparr>listings := AList.update did
                   \<lparr>dataset = dataset l, downloads = downloads l + 1, rating = rating l,
                    reviews = reviews l\<rparr> (listings s)\<rparr>)"
proof (cases "map_of (listings s) did")
  case None
  then show ?thesis by (simp add: increment_downloads_def)
next
  case (Some l)
  with assms have "valid_listing l" by (auto simp: listings_valid_def)
  with Some show ?thesis
    by (simp add: increment_downloads_def set_listing_def new_MarketplaceListing_def valid_listing_def)
qed

lemma register_keeps_valid:
  assumes "listings_valid s"
  shows "listings_valid (snd (register ds s))"
  using assms unfolding register_on_valid [OF assms]
  by (auto simp: listings_valid_def update_conv' valid_listing_def split: option.splits if_splits)

lemma increment_keeps_valid:
  assumes "listings_valid s"
  shows "listings_valid (snd (increment_downloads did s))"
  using assms unfolding increment_downloads_on_valid [OF assms]
  by (auto simp: listings_valid_def update_conv' valid_listing_def split: option.splits if_splits)

lemma register_keeps_coherent:
  assumes "listings_valid s" "coherent s"
  shows "coherent (snd (register ds s))"
  using assms(2) unfolding register_on_valid [OF assms(1)]
  by (auto simp: coherent_def update_conv' split: option.splits if_splits)

lemma increment_keeps_coherent:
  assumes "listings_valid s" "coherent s"
  shows "coherent (snd (increment_downloads did s))"
  using assms(2) unfolding increment_downloads_on_valid [OF assms(1)]
  by (auto simp: coherent_def update_conv' split: option.splits if_splits)

lemma reg_step_keeps:
  "listings_valid s \<Longrightarrow> coherent s \<Longrightarrow> listings_valid (reg_step c s) \<and> coherent (reg_step c s)"
  by (cases c)
     (simp_all add: register_keeps_valid register_keeps_coherent increment_keeps_valid
        increment_keeps_coherent)

lemma reg_run_keeps:
  "listings_valid s \<Longrightarrow> coherent s \<Longrightarrow> listings_valid (reg_run cs s) \<and> coherent (reg_run cs s)"
proof (induction cs arbitrary: s)
  case Nil
  then show ?case by simp
next
  case (Cons c cs)
  from reg_step_keeps [OF Cons.prems] show ?case
    by (simp add: Cons.IH)
qed

lemma init_valid: "listings_valid DatasetRegistry_init"
  by (simp add: listings_valid_def DatasetRegistry_init_def)

lemma init_coherent: "coherent DatasetRegistry_init"
  by (simp add: coherent_def DatasetRegistry_init_def)

lemma reachable_valid: "listings_valid (reg_run cs DatasetRegistry_init)"
  using reg_run_keeps [OF init_valid init_coherent] by blast

lemma reachable_coherent: "coherent (reg_run cs DatasetRegistry_init)"
  using reg_run_keeps [OF init_valid init_coherent] by blast

lemma datasets_register:
  "datasets (snd (register ds s)) = AList.update (dataset_id ds) ds (datasets s)"
  by (simp add: register_def set_listing_def Let_def split: option.split sum.split)

lemma datasets_increment: "datasets (snd (increment_downloads did s)) = datasets s"
  by (simp add: increment_downloads_def set_listing_def split: option.split sum.split)

lemma datasets_reg_run:
  "map_of (datasets (reg_run cs s)) did =
     (case last_registered did cs of Some d \<Rightarrow> Some d | None \<Rightarrow> map_of (datasets s) did)"
proof (induction cs arbitrary: s)
  case Nil
  then show ?case by simp
next
  case (Cons c cs)
  show ?case
  proof (cases c)
    case (Register ds)
    then show ?thesis
      by (simp add: Cons.IH datasets_register update_conv' split: option.split)
  next
    case (IncrementDownloads k)
    then show ?thesis by (simp add: Cons.IH datasets_increment split: option.split)
  next
    case (Get k)
    then show ?thesis by (simp add: Cons.IH)
  next
    case (Search q c m)
    then show ?thesis by (simp add: Cons.IH)
  qed
qed

text \<open>
  Claim C9. \<open>get\<close> after \<open>register\<close> is a round trip: in any state, and after any sequence
  of calls that ends with \<open>register(d)\<close>, \<open>get(d.dataset_id)\<close> returns \<open>d\<close>; in general
  \<open>get\<close> returns the payload of the last \<open>register\<close> call for the identifier, and raises
  the not-found error when there was none.
\<close>

theorem get_returns_last_registered:
  "get (dataset_id ds) (snd (register ds s)) = Inr ds
   \<and> get (dataset_id ds) (reg_run (cs @ [Register ds]) DatasetRegistry_init) = Inr ds
   \<and> get did (reg_run cs DatasetRegistry_init) =
       (case last_registered did cs of
          Some d \<Rightarrow> Inr d
        | None \<Rightarrow> Inl (DatasetNotFoundError did))"
proof (intro conjI)
  show "get (dataset_id ds) (snd (register ds s)) = Inr ds"
    by (simp add: get_def datasets_register update_conv')
  have "last_registered (dataset_id ds) (cs @ [Register ds]) = Some ds"
  proof (induction cs)
    case Nil
    show ?case by simp
  next
    case (Cons c cs)
    then show ?case by (cases c) simp_all
  qed
  then show "get (dataset_id ds) (reg_run (cs @ [Register ds]) DatasetRegistry_init) = Inr ds"
    by (simp add: get_def datasets_reg_run)
  show "get did (reg_run cs DatasetRegistry_init) =
       (case last_registered did cs of
          Some d \<Rightarrow> Inr d
        | None \<Rightarrow> Inl (DatasetNotFoundError did))"
    by (simp add: get_def datasets_reg_run DatasetRegistry_init_def split: option.split)
qed

text \<open>
  Claim C10. The two dictionaries of the registry are coherent (same identifiers, and
  each listing wraps the stored dataset record) in the initial state and in every state
  reached from it by \<open>register\<close>, \<open>increment_downloads\<close>, \<open>get\<close> and \<open>search\<close> calls; any
  further call keeps it.
\<close>

theorem registry_coherent:
  "coherent DatasetRegistry_init
   \<and> coherent (reg_run cs DatasetRegistry_init)
   \<and> coherent (reg_step c (reg_run cs DatasetRegistry_init))"
  using init_coherent reachable_coherent [of cs]
    reg_step_keeps [OF reachable_valid reachable_coherent, of c cs]
  by simp

theorem registry_coherent_witness:
  "map_of (listings (reg_run [Register sample_dataset, Register high_quality_dataset,
        IncrementDownloads ''ds-001''] DatasetRegistry_init)) ''ds-001''
     = Some \<lparr>dataset = sample_dataset, downloads = 1, rating = 0, reviews = 0\<rparr>
   \<and> map_of (datasets (reg_run [Register sample_dataset, Register high_quality_dataset,
        IncrementDownloads ''ds-001''] DatasetRegistry_init)) ''ds-001''
     = Some sample_dataset"
proof -
  let ?s = "reg_run [Register sample_dataset, Register high_quality_dataset,
        IncrementDownloads ''ds-001''] DatasetRegistry_init"
  have l: "map_of (listings ?s) ''ds-001''
     = Some \<lparr>dataset = sample_dataset, downloads = 1, rating = 0, reviews = 0\<rparr>"
    by code_simp
  have "coherent ?s"
    using registry_coherent [of "[Register sample_dataset, Register high_quality_dataset,
        IncrementDownloads ''ds-001'']"] by simp
  then have "map_of (datasets ?s) ''ds-001''
     = Some (dataset \<lparr>dataset = sample_dataset, downloads = 1, rating = 0, reviews = 0\<rparr>)"
    using l unfolding coherent_def by blast
  with l show ?thesis by simp
qed



section \<open>Properties of the evaluator\<close>

lemma scores_map:
  "(if outs = [] then [] else map f outs) = map f outs"
  by simp



lemma py_round_zero: "py_round 0 4 = 0"
  by (simp add: py_round_def round_half_even_def)



lemma get_registered:
  "map_of (datasets reg) did = Some ds \<Longrightarrow> get did reg = Inr ds"
  by (simp add: get_def)

lemma evaluate_accepted:
  assumes "map_of (datasets (registry s)) did = Some ds"
    and "0 \<le> py_round (aggregate_of (map (scoring_fn s) outs)) 4"
    and "py_round (aggregate_of (map (scoring_fn s) outs)) 4 \<le> 1"
  shows "evaluate did outs m t s =
     (Inr \<lparr>result_dataset_id = did, model_name = m,
           score = py_round (aggregate_of (map (scoring_fn s) outs)) 4,
           metrics = [(''mean_score'', aggregate_of (map (scoring_fn s) outs)),
                      (''min_score'', min_of (map (scoring_fn s) outs)),
                      (''max_score'', max_of (map (scoring_fn s) outs)),
                      (''sample_count'', real (length outs))],
           evaluated_at = t\<rparr>,
      s\<lparr>results := AList.update did
          (get_results did s @
           [\<lparr>result_dataset_id = did, model_name = m,
             score = py_round (aggregate_of (map (scoring_fn s) outs)) 4,
             metrics = [(''mean_score'', aggregate_of (map (scoring_fn s) outs)),
                        (''min_score'', min_of (map (scoring_fn s) outs)),
                        (''max_score'', max_of (map (scoring_fn s) outs)),
                        (''sample_count'', real (length outs))],
             evaluated_at = t\<rparr>]) (results s)\<rparr>)"
  using assms
  by (simp add: evaluate_def get_registered scores_map new_EvaluationResult_def Let_def)


lemma evaluate_unknown:
  assumes "map_of (datasets (registry s)) did = None"
  shows "evaluate did outs m t s = (Inl (DatasetNotFoundError did), s)"
  using assms by (simp add: evaluate_def get_def)

lemma evaluate_result_fields:
  assumes "fst (evaluate did outs m t s) = Inr r"
  shows "result_dataset_id r = did \<and> model_name r = m \<and> evaluated_at r = t
         \<and> snd (evaluate did outs m t s)
             = s\<lparr>results := AList.update did (get_results did s @ [r]) (results s)\<rparr>"
  using assms
  by (auto simp add: evaluate_def new_EvaluationResult_def Let_def
      split: sum.splits if_splits)

lemma evaluate_failed_state:
  assumes "fst (evaluate did outs m t s) = Inl e"
  shows "snd (evaluate did outs m t s) = s"
  using assms
  by (auto simp add: evaluate_def new_EvaluationResult_def Let_def
      split: sum.splits if_splits)

lemma get_results_update:
  "get_results d (s\<lparr>results := AList.update did rs (results s)\<rparr>)
     = (if d = did then rs else get_results d s)"
  by (simp add: get_results_def update_conv')

lemma get_results_step:
  "get_results d (step c s) = get_results d s @ returned_by d c s"
proof (cases c)
  case (Registry rc)
  then show ?thesis by (simp add: get_results_def)
next
  case (Evaluate did outs m t)
  show ?thesis
  proof (cases "fst (evaluate did outs m t s)")
    case (Inl e)
    with evaluate_failed_state [OF Inl] Evaluate show ?thesis by simp
  next
    case (Inr r)
    with evaluate_result_fields [OF Inr] Evaluate show ?thesis
      by (simp add: get_results_update)
  qed
next
  case (GetResults x)
  then show ?thesis by simp
qed

lemma get_results_run:
  "get_results d (run cs s) = get_results d s @ returned_in d cs s"
  by (induction cs arbitrary: s) (simp_all add: get_results_step)

lemma fixture_has_ds001:
  "map_of (datasets (registry fixture_runner)) ''ds-001'' = Some sample_dataset"
  by code_simp

lemma fixture_lacks_nonexistent:
  "map_of (datasets (registry fixture_runner)) ''nonexistent'' = None"
  by code_simp



lemma fixture_results: "results fixture_runner = []"
  by (simp add: fixture_runner_def EvaluationRunner_init_def)

text \<open>
  Claim C1. When no dataset is registered under the identifier, \<open>evaluate\<close> raises the
  not-found error that \<open>get\<close> raises for it, and the evaluator is left as it was: the
  history of every dataset id is unchanged.
\<close>

theorem evaluate_unregistered_raises:
  assumes "map_of (datasets (registry s)) did = None"
  shows "get did (registry s) = Inl (DatasetNotFoundError did)
     \<and> evaluate did outs m t s = (Inl (DatasetNotFoundError did), s)
     \<and> fst (evaluate did outs m t s) = Inl (DatasetNotFoundError did)
     \<and> (\<forall>d. get_results d (snd (evaluate did outs m t s)) = get_results d s)"
  using assms by (simp add: evaluate_unknown get_def)

theorem evaluate_unregistered_raises_witness:
  "fst (evaluate ''nonexistent'' [[''score'' \<mapsto> PFloat 0.5]] ''unknown'' 0 fixture_runner)
     = Inl (DatasetNotFoundError ''nonexistent'')
   \<and> get_results ''nonexistent''
        (snd (evaluate ''nonexistent'' [[''score'' \<mapsto> PFloat 0.5]] ''unknown'' 0 fixture_runner)) = []
   \<and> get_results ''ds-001''
        (snd (evaluate ''nonexistent'' [[''score'' \<mapsto> PFloat 0.5]] ''unknown'' 0 fixture_runner)) = []"
  using evaluate_unregistered_raises [OF fixture_lacks_nonexistent,
      of "[[''score'' \<mapsto> PFloat 0.5]]" "''unknown''" 0]
  by (simp add: get_results_def fixture_results)

text \<open>
  Claim C7. On a registered dataset, \<open>evaluate\<close> with an empty batch returns a result
  (no division is made) whose score, mean, minimum, maximum and sample count are all 0.
\<close>

theorem evaluate_empty_batch:
  assumes "map_of (datasets (registry s)) did = Some ds"
  shows "fst (evaluate did [] m t s) =
     Inr \<lparr>result_dataset_id = did, model_name = m, score = 0,
          metrics = [(''mean_score'', 0), (''min_score'', 0), (''max_score'', 0),
                     (''sample_count'', 0)],
          evaluated_at = t\<rparr>"
proof -
  have a: "aggregate_of [] = 0" by (simp add: aggregate_of_def)
  have "0 \<le> py_round (aggregate_of (map (scoring_fn s) [])) 4"
    "py_round (aggregate_of (map (scoring_fn s) [])) 4 \<le> 1"
    by (simp_all add: a py_round_zero)
  from evaluate_accepted [OF assms this, of m t] show ?thesis
    by (simp add: a py_round_zero min_of_def max_of_def)
qed

theorem evaluate_empty_batch_witness:
  "(\<exists>r. fst (evaluate ''ds-001'' [] ''empty-model'' 7 fixture_runner) = Inr r
      \<and> score r = 0
      \<and> map_of (metrics r) ''min_score'' = Some 0
      \<and> map_of (metrics r) ''max_score'' = Some 0
      \<and> map_of (metrics r) ''sample_count'' = Some 0)"
  using evaluate_empty_batch [OF fixture_has_ds001, of "''empty-model''" 7]
  by simp






text \<open>
  Claim C8. A fresh evaluator has an empty history for every id. A successful
  \<open>evaluate\<close> appends exactly its result (with the given dataset id, model name and time)
  to the history of its dataset id and leaves the other histories alone; a failed one
  changes nothing. Hence after any sequence of calls \<open>get_results\<close> returns the earlier
  history followed by the results of the successful evaluations for that id, in call
  order and with repetitions.
\<close>

theorem history_in_call_order:
  "get_results did (EvaluationRunner_init reg fn) = []
   \<and> get_results did (run cs s) = get_results did s @ returned_in did cs s
   \<and> get_results did (run cs (EvaluationRunner_init reg fn))
       = returned_in did cs (EvaluationRunner_init reg fn)
   \<and> (\<forall>r. fst (evaluate did outs m t s) = Inr r \<longrightarrow>
          get_results did (snd (evaluate did outs m t s)) = get_results did s @ [r]
          \<and> result_dataset_id r = did \<and> model_name r = m \<and> evaluated_at r = t
          \<and> (\<forall>d. d \<noteq> did \<longrightarrow> get_results d (snd (evaluate did outs m t s)) = get_results d s))
   \<and> (\<forall>e. fst (evaluate did outs m t s) = Inl e \<longrightarrow> snd (evaluate did outs m t s) = s)"
proof (intro conjI allI impI)
  show e: "get_results did (EvaluationRunner_init reg fn) = []"
    by (simp add: get_results_def EvaluationRunner_init_def)
  show "get_results did (run cs s) = get_results did s @ returned_in did cs s"
    by (rule get_results_run)
  show "get_results did (run cs (EvaluationRunner_init reg fn))
       = returned_in did cs (EvaluationRunner_init reg fn)"
    by (simp add: get_results_run e)
next
  fix r assume r: "fst (evaluate did outs m t s) = Inr r"
  note f = evaluate_result_fields [OF r]
  from f show "result_dataset_id r = did" "model_name r = m" "evaluated_at r = t"
    by simp_all
  from f show "get_results did (snd (evaluate did outs m t s)) = get_results did s @ [r]"
    by (simp add: get_results_update)
  fix d assume "d \<noteq> did"
  with f show "get_results d (snd (evaluate did outs m t s)) = get_results d s"
    by (simp add: get_results_update)
next
  fix e assume "fst (evaluate did outs m t s) = Inl e"
  then show "snd (evaluate did outs m t s) = s" by (rule evaluate_failed_state)
qed

lemma three_runs:
  "map model_name (returned_in ''ds-001''
      [Evaluate ''ds-001'' [[''score'' \<mapsto> PFloat 0.5]] ''model-a'' 1,
       Evaluate ''nonexistent'' [[''score'' \<mapsto> PFloat 0.5]] ''model-x'' 2,
       Evaluate ''ds-001'' [[''score'' \<mapsto> PFloat 0.5]] ''model-b'' 3,
       Evaluate ''ds-001'' [[''score'' \<mapsto> PFloat 0.5]] ''model-b'' 3]
      fixture_runner) = [''model-a'', ''model-b'', ''model-b'']"
  by code_simp

lemma one_run:
  "fst (evaluate ''ds-001'' [[''score'' \<mapsto> PFloat 0.5]] ''model-a'' 1 fixture_runner)
    = Inr \<lparr>result_dataset_id = ''ds-001'', model_name = ''model-a'', score = 1/2,
          metrics = [(''mean_score'', 1/2), (''min_score'', 1/2), (''max_score'', 1/2),
                     (''sample_count'', 1)],
          evaluated_at = 1\<rparr>"
  by code_simp

theorem history_in_call_order_witness:
  "map model_name (get_results ''ds-001'' (run
      [Evaluate ''ds-001'' [[''score'' \<mapsto> PFloat 0.5]] ''model-a'' 1,
       Evaluate ''nonexistent'' [[''score'' \<mapsto> PFloat 0.5]] ''model-x'' 2,
       Evaluate ''ds-001'' [[''score'' \<mapsto> PFloat 0.5]] ''model-b'' 3,
       Evaluate ''ds-001'' [[''score'' \<mapsto> PFloat 0.5]] ''model-b'' 3]
      fixture_runner)) = [''model-a'', ''model-b'', ''model-b'']
   \<and> get_results ''ds-001''
        (snd (evaluate ''ds-001'' [[''score'' \<mapsto> PFloat 0.5]] ''model-a'' 1 fixture_runner))
      = [\<lparr>result_dataset_id = ''ds-001'', model_name = ''model-a'', score = 1/2,
          metrics = [(''mean_score'', 1/2), (''min_score'', 1/2), (''max_score'', 1/2),
                     (''sample_count'', 1)],
          evaluated_at = 1\<rparr>]
   \<and> get_results ''ds-002''
        (snd (evaluate ''ds-001'' [[''score'' \<mapsto> PFloat 0.5]] ''model-a'' 1 fixture_runner))
      = []"
proof -
  let ?cs = "[Evaluate ''ds-001'' [[''score'' \<mapsto> PFloat 0.5]] ''model-a'' 1,
       Evaluate ''nonexistent'' [[''score'' \<mapsto> PFloat 0.5]] ''model-x'' 2,
       Evaluate ''ds-001'' [[''score'' \<mapsto> PFloat 0.5]] ''model-b'' 3,
       Evaluate ''ds-001'' [[''score'' \<mapsto> PFloat 0.5]] ''model-b'' 3]"
  note h = history_in_call_order [of "''ds-001''" fixture_registry None ?cs fixture_runner
      "[[''score'' \<mapsto> PFloat 0.5]]" "''model-a''" 1]
  have e: "get_results ''ds-001'' fixture_runner = []" "get_results ''ds-002'' fixture_runner = []"
    by (simp_all add: get_results_def fixture_results)
  from h have "get_results ''ds-001'' (run ?cs (EvaluationRunner_init fixture_registry None))
      = returned_in ''ds-001'' ?cs (EvaluationRunner_init fixture_registry None)"
    by (elim conjE)
  then have 1: "map model_name (get_results ''ds-001'' (run ?cs fixture_runner))
      = [''model-a'', ''model-b'', ''model-b'']"
    unfolding fixture_runner_def [symmetric] by (simp only: three_runs)
  from h have step: "\<forall>r. fst (evaluate ''ds-001'' [[''score'' \<mapsto> PFloat 0.5]] ''model-a'' 1 fixture_runner) = Inr r \<longrightarrow>
          get_results ''ds-001'' (snd (evaluate ''ds-001'' [[''score'' \<mapsto> PFloat 0.5]] ''model-a'' 1 fixture_runner))
            = get_results ''ds-001'' fixture_runner @ [r]
          \<and> result_dataset_id r = ''ds-001'' \<and> model_name r = ''model-a'' \<and> evaluated_at r = 1
          \<and> (\<forall>d. d \<noteq> ''ds-001'' \<longrightarrow> get_results d (snd (evaluate ''ds-001'' [[''score'' \<mapsto> PFloat 0.5]] ''model-a'' 1 fixture_runner)) = get_results d fixture_runner)"
    by (elim conjE)
  note st = step [rule_format, OF one_run]
  from st have 2: "get_results ''ds-001''
        (snd (evaluate ''ds-001'' [[''score'' \<mapsto> PFloat 0.5]] ''model-a'' 1 fixture_runner))
      = get_results ''ds-001'' fixture_runner @ [\<lparr>result_dataset_id = ''ds-001'', model_name = ''model-a'', score = 1/2,
          metrics = [(''mean_score'', 1/2), (''min_score'', 1/2), (''max_score'', 1/2),
                     (''sample_count'', 1)],
          evaluated_at = 1\<rparr>]"
    by (elim conjE)
  have ne: "''ds-002'' \<noteq> ''ds-001''" by simp
  from st have "\<forall>d. d \<noteq> ''ds-001'' \<longrightarrow> get_results d (snd (evaluate ''ds-001'' [[''score'' \<mapsto> PFloat 0.5]] ''model-a'' 1 fixture_runner)) = get_results d fixture_runner"
    by (elim conjE)
  from this [rule_format, OF ne] have 3: "get_results ''ds-002''
        (snd (evaluate ''ds-001'' [[''score'' \<mapsto> PFloat 0.5]] ''model-a'' 1 fixture_runner))
      = get_results ''ds-002'' fixture_runner" .
  show ?thesis unfolding 1 2 3 e by simp
qed

section \<open>Properties of search\<close>

lemma search_loop_filter:
  "search_loop ql cat mq xs acc = acc @ filter (search_keeps ql cat mq) xs"
  by (induction xs arbitrary: acc) simp_all

lemma re_search_sublist: "re_search_escaped q s = sublist q s"
  by (induction s) (simp_all add: sublist_Cons_right)

lemma search_keeps_iff:
  "search_keeps ql cat mq l \<longleftrightarrow>
     mq \<le> quality_score (dataset l)
     \<and> (case cat of None \<Rightarrow> True | Some c \<Rightarrow> py_lower (category (dataset l)) = py_lower c)
     \<and> (ql = [] \<or> sublist ql (searchable (dataset l)))"
  by (cases cat) (auto simp add: search_keeps_def Let_def re_search_sublist)

lemma isspace_lower: "py_isspace (py_lower_char c) = py_isspace c"
  by (auto simp add: py_isspace_def py_lower_char_def Let_def)

lemma dropWhile_space_lower:
  "dropWhile py_isspace (map py_lower_char xs) = map py_lower_char (dropWhile py_isspace xs)"
  by (induction xs) (simp_all add: isspace_lower)

lemma strip_lower: "py_strip (py_lower q) = py_lower (py_strip q)"
  by (simp add: py_strip_def py_lower_def dropWhile_space_lower rev_map)

lemma search_as_filter:
  "search query cat mq s =
     sort_key (\<lambda>l. - quality_score (dataset l))
       (filter (search_keeps (py_strip (py_lower query)) cat mq) (map snd (listings s)))"
  by (simp add: search_def search_loop_filter)

lemma set_search:
  "set (search query cat mq s) =
     {l \<in> set (map snd (listings s)). search_keeps (py_strip (py_lower query)) cat mq l}"
  by (auto simp add: search_as_filter)

lemma sorted_search:
  "sorted_wrt (\<lambda>a b. quality_score (dataset b) \<le> quality_score (dataset a))
     (search query cat mq s)"
proof -
  have "sorted (map (\<lambda>l. - quality_score (dataset l)) (search query cat mq s))"
    unfolding search_as_filter by (rule sorted_sort_key)
  then show ?thesis by (simp add: sorted_map)
qed

text \<open>
  Claim C5. \<open>search\<close> returns exactly the listings (as a multiset) whose quality score
  is at least \<open>min_quality\<close>, whose category equals the given one ignoring case when a
  category is given, and which pass the text filter; the result is in non-increasing
  order of quality score; and an empty result is an ordinary return value.
\<close>

theorem search_filters_and_sorts:
  "mset (search query cat q s) =
     mset (filter (\<lambda>l. q \<le> quality_score (dataset l)
                    \<and> (case cat of None \<Rightarrow> True
                        | Some c \<Rightarrow> py_lower (category (dataset l)) = py_lower c)
                    \<and> (py_strip (py_lower query) = []
                        \<or> sublist (py_strip (py_lower query)) (searchable (dataset l))))
             (map snd (listings s)))
   \<and> sorted_wrt (\<lambda>a b. quality_score (dataset b) \<le> quality_score (dataset a))
        (search query cat q s)
   \<and> search query cat q DatasetRegistry_init = []"
proof (intro conjI)
  have "search_keeps (py_strip (py_lower query)) cat q =
      (\<lambda>l. q \<le> quality_score (dataset l)
                    \<and> (case cat of None \<Rightarrow> True
                        | Some c \<Rightarrow> py_lower (category (dataset l)) = py_lower c)
                    \<and> (py_strip (py_lower query) = []
                        \<or> sublist (py_strip (py_lower query)) (searchable (dataset l))))"
    by (rule ext) (rule search_keeps_iff)
  then show "mset (search query cat q s) =
     mset (filter (\<lambda>l. q \<le> quality_score (dataset l)
                    \<and> (case cat of None \<Rightarrow> True
                        | Some c \<Rightarrow> py_lower (category (dataset l)) = py_lower c)
                    \<and> (py_strip (py_lower query) = []
                        \<or> sublist (py_strip (py_lower query)) (searchable (dataset l))))
             (map snd (listings s)))"
    by (simp add: search_as_filter)
  show "sorted_wrt (\<lambda>a b. quality_score (dataset b) \<le> quality_score (dataset a))
        (search query cat q s)"
    by (rule sorted_search)
  show "search query cat q DatasetRegistry_init = []"
    by (simp add: search_as_filter DatasetRegistry_init_def)
qed

lemma fixture_search_all:
  "map (\<lambda>l. dataset_id (dataset l)) (search '''' None 0 fixture_registry) = [''ds-002'', ''ds-001'']"
  by code_simp

lemma fixture_search_category:
  "map (\<lambda>l. dataset_id (dataset l)) (search '''' (Some ''HELPFULNESS'') 0 fixture_registry) = [''ds-002'']"
  by code_simp

lemma fixture_search_boundary:
  "map (\<lambda>l. dataset_id (dataset l)) (search '''' None 0.85 fixture_registry) = [''ds-002'', ''ds-001'']"
  by code_simp

lemma fixture_search_above:
  "map (\<lambda>l. dataset_id (dataset l)) (search '''' None 0.9 fixture_registry) = [''ds-002'']"
  by code_simp

theorem search_filters_and_sorts_witness:
  "map (\<lambda>l. dataset_id (dataset l)) (search '''' None 0 fixture_registry) = [''ds-002'', ''ds-001'']
   \<and> map (\<lambda>l. dataset_id (dataset l)) (search '''' None 0.85 fixture_registry) = [''ds-002'', ''ds-001'']
   \<and> map (\<lambda>l. dataset_id (dataset l)) (search '''' None 0.9 fixture_registry) = [''ds-002'']
   \<and> map (\<lambda>l. dataset_id (dataset l)) (search '''' (Some ''HELPFULNESS'') 0 fixture_registry) = [''ds-002'']
   \<and> sorted_wrt (\<lambda>a b. quality_score (dataset b) \<le> quality_score (dataset a))
        (search '''' None 0 fixture_registry)"
  using search_filters_and_sorts [of "''''" None 0 fixture_registry]
    fixture_search_all fixture_search_category fixture_search_boundary fixture_search_above
  by (elim conjE) (intro conjI, assumption+)

lemma dotted_listing:
  "\<lparr>dataset = dotted_dataset, downloads = 0, rating = 0, reviews = 0\<rparr>
     \<in> set (map snd (listings dotted_registry))"
  by code_simp

lemma dotted_quality: "0 \<le> quality_score (dataset \<lparr>dataset = dotted_dataset, downloads = 0, rating = 0, reviews = 0\<rparr>)"
  by (simp add: dotted_dataset_def)

text \<open>
  Claim C4, as amended. For a listing of the registry that passes the quality and the
  category filter, \<open>search\<close> returns it exactly when the query, trimmed and lowercased
  (in either order), is empty or occurs as a contiguous piece of text in the lowercased
  name, description and tags joined by single spaces. The query is compared character
  by character: no character of it acts as a wildcard.
\<close>

theorem search_text_filter_literal:
  assumes "listing \<in> set (map snd (listings s))"
    and "min_quality \<le> quality_score (dataset listing)"
    and "case cat of None \<Rightarrow> True | Some c \<Rightarrow> py_lower (category (dataset listing)) = py_lower c"
  shows "(listing \<in> set (search query cat min_quality s) \<longleftrightarrow>
            py_lower (py_strip query) = []
            \<or> sublist (py_lower (py_strip query))
                 (py_lower (py_join '' '' ([name (dataset listing), description (dataset listing)]
                                            @ tags (dataset listing)))))
     \<and> py_strip (py_lower query) = py_lower (py_strip query)"
  using assms
  by (simp add: set_search search_keeps_iff strip_lower searchable_def)

lemma dotted_match_dot_b:
  "sublist (py_lower (py_strip '' .B ''))
     (py_lower (py_join '' '' ([name dotted_dataset, description dotted_dataset] @ tags dotted_dataset)))"
  by code_simp

lemma dotted_match_across:
  "sublist (py_lower (py_strip ''b c''))
     (py_lower (py_join '' '' ([name dotted_dataset, description dotted_dataset] @ tags dotted_dataset)))"
  by code_simp

lemma dotted_no_match_star:
  "\<not> (py_lower (py_strip ''.*'') = [] \<or> sublist (py_lower (py_strip ''.*''))
     (py_lower (py_join '' '' ([name dotted_dataset, description dotted_dataset] @ tags dotted_dataset))))"
  by code_simp

theorem search_text_filter_literal_witness:
  "\<lparr>dataset = dotted_dataset, downloads = 0, rating = 0, reviews = 0\<rparr>
      \<in> set (search '' .B '' None 0 dotted_registry)
   \<and> \<lparr>dataset = dotted_dataset, downloads = 0, rating = 0, reviews = 0\<rparr>
      \<in> set (search ''b c'' None 0 dotted_registry)
   \<and> \<lparr>dataset = dotted_dataset, downloads = 0, rating = 0, reviews = 0\<rparr>
      \<notin> set (search ''.*'' None 0 dotted_registry)"
proof -
  let ?l = "\<lparr>dataset = dotted_dataset, downloads = 0, rating = 0, reviews = 0\<rparr>"
  have c: "case (None :: string option) of None \<Rightarrow> True
           | Some c \<Rightarrow> py_lower (category (dataset ?l)) = py_lower c"
    by simp
  note t = search_text_filter_literal [OF dotted_listing dotted_quality c]
  have d: "dataset ?l = dotted_dataset" by simp
  from t [of "'' .B ''"] dotted_match_dot_b
  have 1: "?l \<in> set (search '' .B '' None 0 dotted_registry)" unfolding d by simp
  from t [of "''b c''"] dotted_match_across
  have 2: "?l \<in> set (search ''b c'' None 0 dotted_registry)" unfolding d by simp
  from t [of "''.*''"] dotted_no_match_star
  have 3: "?l \<notin> set (search ''.*'' None 0 dotted_registry)" unfolding d by simp
  from 1 2 3 show ?thesis by simp
qed

text \<open>
  Claim C4 as stated fails: the name \<open>a.b\<close> followed directly by the description \<open>c\<close>
  contains \<open>bc\<close>, so the plain concatenation matches the query \<open>bc\<close>, but \<open>search\<close>
  joins the fields with a space and returns nothing.
\<close>

theorem concatenation_without_separator_differs:
  "spec_text_match ''bc'' dotted_dataset
   \<and> \<lparr>dataset = dotted_dataset, downloads = 0, rating = 0, reviews = 0\<rparr>
        \<in> set (map snd (listings dotted_registry))
   \<and> search ''bc'' None 0 dotted_registry = []"
proof (intro conjI)
  show "spec_text_match ''bc'' dotted_dataset" by code_simp
  show "\<lparr>dataset = dotted_dataset, downloads = 0, rating = 0, reviews = 0\<rparr>
        \<in> set (map snd (listings dotted_registry))" by (rule dotted_listing)
  show "search ''bc'' None 0 dotted_registry = []" by code_simp
qed

end
